theory Spec2Isabelle
  imports Main
begin

section \<open>Milestone1.py: credential store, reset tokens and document repository\<close>

text \<open>
  The module keeps all of its state in one SQLite file with two tables, \<open>users\<close> and
  \<open>documents\<close>. Every function opens a connection, runs one or two statements, commits
  and closes. The embedding threads the database through each function as an explicit
  value: a function that writes returns the database it leaves behind.

  Three things a function gets from outside are parameters of the model:
  \<^item> the bcrypt library (\<open>bcrypt.hashpw\<close>, \<open>bcrypt.checkpw\<close>), a record of two functions;
  \<^item> the random values a call draws (\<open>bcrypt.gensalt()\<close>, \<open>secrets.token_hex(16)\<close>);
  \<^item> the clock (\<open>datetime.utcnow().isoformat()\<close>).
  Python's \<open>str\<close> is modelled as \<open>string\<close>, read as ASCII text.
\<close>

subsection \<open>Strings: \<open>str.strip()\<close> and \<open>str.lower()\<close>\<close>

type_synonym bytes = string

definition isspace :: "char \<Rightarrow> bool" where
  \<comment> \<open>the ASCII characters for which Python's \<open>str.isspace\<close> holds\<close>
  "isspace c \<longleftrightarrow>
     c \<in> set [CHR 0x09, CHR 0x0A, CHR 0x0B, CHR 0x0C, CHR 0x0D,
                CHR 0x1C, CHR 0x1D, CHR 0x1E, CHR 0x1F, CHR 0x20]"

definition strip :: "string \<Rightarrow> string" where
  "strip s = rev (dropWhile isspace (rev (dropWhile isspace s)))"

definition lower_char :: "char \<Rightarrow> char" where
  "lower_char c =
     (case map_of (zip ''ABCDEFGHIJKLMNOPQRSTUVWXYZ'' ''abcdefghijklmnopqrstuvwxyz'') c of
        Some l \<Rightarrow> l
      | None \<Rightarrow> c)"

definition lower :: "string \<Rightarrow> string" where
  "lower s = map lower_char s"

definition normalize_email :: "string \<Rightarrow> string" where
  \<comment> \<open>\<open>email.strip().lower()\<close>, as every statement's parameter is built\<close>
  "normalize_email email = lower (strip email)"

subsection \<open>The bcrypt library\<close>

text \<open>
  \<open>hashpw B password salt\<close> is \<open>bcrypt.hashpw(password.encode("utf-8"), salt)\<close>.
  \<open>checkpw B password h\<close> is \<open>bcrypt.checkpw(password.encode("utf-8"), h)\<close>; it is
  \<open>None\<close> when the call raises, which \<open>verify_user\<close> catches. \<open>add_user\<close> and
  \<open>reset_password\<close> call \<open>hashpw\<close> outside any \<open>try\<close>: on a password that bcrypt
  refuses (bcrypt 5 raises \<open>ValueError\<close> above 72 bytes) the call does not return, and
  the value of \<open>hashpw\<close> there stands for nothing. A theorem about the hash of a password
  therefore assumes that \<open>checkpw\<close> accepts the password against it, which holds of no
  refused password. Nothing else is assumed of the two functions; a theorem that needs
  more says so in its hypotheses.
\<close>

record bcrypt =
  hashpw :: "string \<Rightarrow> bytes \<Rightarrow> bytes"
  checkpw :: "string \<Rightarrow> bytes \<Rightarrow> bool option"

subsection \<open>The database\<close>

text \<open>The two tables of \<open>init_db\<close>, a row of each as a record.\<close>

record user_row =
  u_id :: int
  u_email :: string
  u_password_hash :: bytes
  u_reset_token :: "string option"
  u_created_at :: string

record document_row =
  d_id :: int
  d_user_id :: int
  d_filename :: "string option"
  d_mime :: "string option"
  d_content :: string
  d_created_at :: string

text \<open>
  Rows are kept in insertion order. \<open>users_seq\<close> and \<open>documents_seq\<close> are the
  \<open>sqlite_sequence\<close> entries of the two \<open>AUTOINCREMENT\<close> keys: the largest id handed
  out so far, so that an id is never used twice, also after a delete.
\<close>

record db =
  users :: "user_row list"
  documents :: "document_row list"
  users_seq :: int
  documents_seq :: int

definition init_db :: db where
  \<comment> \<open>a fresh database file after \<open>init_db()\<close>; on an existing file
      \<open>CREATE TABLE IF NOT EXISTS\<close> changes nothing\<close>
  "init_db = \<lparr>users = [], documents = [], users_seq = 0, documents_seq = 0\<rparr>"

subsection \<open>Credential store\<close>

text \<open>
  SQLite gives the write lock of the file to one connection at a time, and a connection
  keeps it until its transaction ends. \<open>add_user\<close> closes its connection on the
  successful path only. Its \<open>IntegrityError\<close> handler returns with the connection open
  inside the transaction the \<open>INSERT\<close> began, so the lock stays taken until the
  connection object is collected. While it is taken, the \<open>INSERT\<close> of a later call
  raises \<open>sqlite3.OperationalError("database is locked")\<close> before any constraint is
  looked at, and \<open>except Exception as e\<close> turns that into
  \<open>f"Registration failed: {e}"\<close>. \<open>locked\<close> says whether the lock is taken when the
  call reaches its \<open>INSERT\<close>; \<open>lock_after_add_user\<close> is the same for the next call,
  when nothing was collected in between.

  The other writers have no \<open>try\<close>: under the lock their statement raises and the
  tables stay as they were. Their definitions are of the call that gets the lock.
  Reading needs no lock.
\<close>

definition add_user ::
  "bcrypt \<Rightarrow> bool \<Rightarrow> bytes \<Rightarrow> string \<Rightarrow> string \<Rightarrow> string \<Rightarrow> db
     \<Rightarrow> (bool \<times> string) \<times> db" where
  \<comment> \<open>\<open>salt\<close> is \<open>bcrypt.gensalt()\<close>, \<open>now\<close> is \<open>datetime.utcnow().isoformat()\<close>.
      The \<open>INSERT\<close> raises \<open>sqlite3.OperationalError\<close> under the lock, and
      \<open>sqlite3.IntegrityError\<close> when the \<open>UNIQUE\<close> column \<open>email\<close> already holds the
      value.\<close>
  "add_user B locked salt now email password st =
     (if email = [] \<or> password = [] then
        ((False, ''Email and password are required.''), st)
      else
        let pw_hash = hashpw B password salt;
            e = normalize_email email
        in if locked then
             ((False, ''Registration failed: database is locked''), st)
           else if List.find (\<lambda>r. u_email r = e) (users st) \<noteq> None then
             ((False, ''Email already registered.''), st)
           else
             ((True, ''Registration successful.''),
              st\<lparr>users := users st @
                     [\<lparr>u_id = users_seq st + 1, u_email = e, u_password_hash = pw_hash,
                       u_reset_token = None, u_created_at = now\<rparr>],
                 users_seq := users_seq st + 1\<rparr>))"


definition verify_user :: "bcrypt \<Rightarrow> string \<Rightarrow> string \<Rightarrow> db \<Rightarrow> (int \<times> string) option" where
  \<comment> \<open>the result is the dictionary \<open>{"id": ..., "email": ...}\<close> or \<open>None\<close>; an
      exception of \<open>checkpw\<close> is caught and falls through to \<open>return None\<close>\<close>
  "verify_user B email password st =
     (case List.find (\<lambda>r. u_email r = normalize_email email) (users st) of
        None \<Rightarrow> None
      | Some row \<Rightarrow>
          (case checkpw B password (u_password_hash row) of
             Some True \<Rightarrow> Some (u_id row, u_email row)
           | Some False \<Rightarrow> None
           | None \<Rightarrow> None))"

subsection \<open>Reset tokens\<close>

definition create_reset_token :: "string \<Rightarrow> string \<Rightarrow> db \<Rightarrow> string option \<times> db" where
  \<comment> \<open>\<open>token\<close> is \<open>secrets.token_hex(16)\<close>; \<open>cur.rowcount\<close> is the number of rows the
      \<open>UPDATE\<close> matched\<close>
  "create_reset_token token email st =
     (let e = normalize_email email;
          rowcount = length (filter (\<lambda>r. u_email r = e) (users st));
          st' = st\<lparr>users :=
                  map (\<lambda>r. if u_email r = e then r\<lparr>u_reset_token := Some token\<rparr> else r)
                    (users st)\<rparr>
      in if rowcount = 0 then (None, st') else (Some token, st'))"

definition reset_password ::
  "bcrypt \<Rightarrow> bytes \<Rightarrow> string \<Rightarrow> string \<Rightarrow> string \<Rightarrow> db \<Rightarrow> (bool \<times> string) \<times> db" where
  \<comment> \<open>\<open>row["reset_token"]\<close> is \<open>None\<close> for SQL \<open>NULL\<close>, which differs from every
      \<open>str\<close>; one \<open>UPDATE\<close> writes the hash and clears the token\<close>
  "reset_password B salt email token new_password st =
     (let e = normalize_email email in
      case List.find (\<lambda>r. u_email r = e) (users st) of
        None \<Rightarrow> ((False, ''Invalid or expired reset token.''), st)
      | Some row \<Rightarrow>
          if u_reset_token row \<noteq> Some token then
            ((False, ''Invalid or expired reset token.''), st)
          else
            let pw_hash = hashpw B new_password salt
            in ((True, ''Password has been reset successfully.''),
                st\<lparr>users :=
                     map (\<lambda>r. if u_email r = e
                               then r\<lparr>u_password_hash := pw_hash, u_reset_token := None\<rparr>
                               else r)
                       (users st)\<rparr>))"

subsection \<open>Document repository\<close>

definition save_document ::
  "int \<Rightarrow> string \<Rightarrow> string option \<Rightarrow> string option \<Rightarrow> string \<Rightarrow> db \<Rightarrow> db" where
  \<comment> \<open>the function returns nothing; SQLite does not enforce the foreign key
      (\<open>PRAGMA foreign_keys\<close> is never switched on)\<close>
  "save_document user_id content filename mime now st =
     st\<lparr>documents := documents st @
            [\<lparr>d_id = documents_seq st + 1, d_user_id = user_id, d_filename = filename,
              d_mime = mime, d_content = content, d_created_at = now\<rparr>],
        documents_seq := documents_seq st + 1\<rparr>"

type_synonym listed_row = "int \<times> string option \<times> string option \<times> string \<times> string"

definition select_columns :: "document_row \<Rightarrow> listed_row" where
  \<comment> \<open>\<open>SELECT id, filename, mime, content, created_at\<close>\<close>
  "select_columns d = (d_id d, d_filename d, d_mime d, d_content d, d_created_at d)"

definition list_documents :: "int \<Rightarrow> db \<Rightarrow> listed_row list" where
  \<comment> \<open>\<open>WHERE user_id=? ORDER BY id DESC\<close>\<close>
  "list_documents user_id st =
     map select_columns
       (rev (sort_key d_id (filter (\<lambda>d. d_user_id d = user_id) (documents st))))"

definition delete_document :: "int \<Rightarrow> int \<Rightarrow> db \<Rightarrow> db" where
  \<comment> \<open>\<open>DELETE FROM documents WHERE id=? AND user_id=?\<close>\<close>
  "delete_document doc_id user_id st =
     st\<lparr>documents :=
          filter (\<lambda>d. \<not> (d_id d = doc_id \<and> d_user_id d = user_id)) (documents st)\<rparr>"

subsection \<open>The upload tab's save button\<close>

text \<open>
  The handler of the \<open>Save Document\<close> button, the only caller of \<open>save_document\<close>:
  \<open>paste_text\<close> is the text area, \<open>extracted_text\<close>, \<open>filename\<close> and \<open>mime\<close> come from
  \<open>read_text_from_upload\<close> (empty text and \<open>None\<close> when no file was parsed), and
  \<open>user_id\<close> is \<open>st.session_state.user["id"]\<close>. \<open>x or d\<close> on an optional string is
  \<open>d\<close> for \<open>None\<close> and for the empty string. The result pairs the outcome with the
  message shown (\<open>st.error\<close> or \<open>st.success\<close>).
\<close>

definition or_default :: "string option \<Rightarrow> string \<Rightarrow> string" where
  "or_default x d = (case x of None \<Rightarrow> d | Some s \<Rightarrow> if s = [] then d else s)"

definition save_button ::
  "int \<Rightarrow> string \<Rightarrow> string \<Rightarrow> string option \<Rightarrow> string option \<Rightarrow> string \<Rightarrow> db
     \<Rightarrow> (bool \<times> string) \<times> db" where
  "save_button user_id paste_text extracted_text filename mime now st =
     (let final_text = strip paste_text;
          final_text = (if final_text = [] \<and> extracted_text \<noteq> []
                        then strip extracted_text else final_text)
      in if final_text = [] then
           ((False, ''No content to save. Paste text or upload a file first.''), st)
         else
           ((True, ''Document saved to your library.''),
            save_document user_id final_text
              (Some (or_default filename ''pasted_text.txt''))
              (Some (or_default mime ''text/plain'')) now st))"

subsection \<open>Calls and reachable databases\<close>

text \<open>
  The calls that write, with the values each draws from outside; for \<open>add_user\<close> that
  includes whether it finds the write lock taken. A reachable database is what a
  sequence of calls leaves of the fresh one.
\<close>

datatype call =
    AddUser bool bytes string string string
  | CreateResetToken string string
  | ResetPassword bytes string string string
  | SaveDocument int string "string option" "string option" string
  | DeleteDocument int int

fun exec :: "bcrypt \<Rightarrow> call \<Rightarrow> db \<Rightarrow> db" where
  "exec B (AddUser locked salt now email password) st =
     snd (add_user B locked salt now email password st)"
| "exec B (CreateResetToken token email) st = snd (create_reset_token token email st)"
| "exec B (ResetPassword salt email token new_password) st =
     snd (reset_password B salt email token new_password st)"
| "exec B (SaveDocument user_id content filename mime now) st =
     save_document user_id content filename mime now st"
| "exec B (DeleteDocument doc_id user_id) st = delete_document doc_id user_id st"

definition run :: "bcrypt \<Rightarrow> call list \<Rightarrow> db \<Rightarrow> db" where
  "run B cs st = foldl (\<lambda>s c. exec B c s) st cs"

subsection \<open>The spec's names for the outcomes\<close>

definition InvalidInput :: "bool \<times> string" where
  "InvalidInput = (False, ''Email and password are required.'')"

definition DuplicateEmail :: "bool \<times> string" where
  "DuplicateEmail = (False, ''Email already registered.'')"


definition InvalidToken :: "bool \<times> string" where
  "InvalidToken = (False, ''Invalid or expired reset token.'')"

definition EmptyContent :: "bool \<times> string" where
  "EmptyContent = (False, ''No content to save. Paste text or upload a file first.'')"

subsection \<open>A concrete instance for evaluation\<close>

text \<open>
  The theorems hold for every implementation of the bcrypt interface. To evaluate them
  at concrete inputs, \<open>demo_bcrypt\<close> is an instance that prefixes a two-byte salt to the
  password and compares the rest; \<open>demo_db\<close> is the database after one registration,
  one token request and three saved documents.
\<close>

definition demo_bcrypt :: bcrypt where
  "demo_bcrypt = \<lparr>hashpw = (\<lambda>password salt. salt @ password),
                   checkpw = (\<lambda>password h. Some (drop 2 h = password))\<rparr>"

definition demo_calls :: "call list" where
  "demo_calls =
     [AddUser False ''s1'' ''2024-01-01'' '' A@x.com '' ''pw1'',
      CreateResetToken ''T1'' ''a@x.com'',
      SaveDocument 1 ''first note'' (Some ''a.txt'') (Some ''text/plain'') ''2024-01-02'',
      SaveDocument 2 ''foreign note'' None None ''2024-01-03'',
      SaveDocument 1 ''second note'' (Some ''b.txt'') (Some ''text/plain'') ''2024-01-04'']"

definition demo_db :: db where
  "demo_db = run demo_bcrypt demo_calls init_db"

subsection \<open>Well-formed databases\<close>

text \<open>
  What the schema and the functions keep true of the tables: emails are distinct
  (\<open>UNIQUE\<close>) and stored normalized, ids grow with insertion and never exceed the
  sequence counter (\<open>PRIMARY KEY AUTOINCREMENT\<close>).
\<close>

definition db_ok :: "db \<Rightarrow> bool" where
  "db_ok st \<longleftrightarrow>
     distinct (map u_email (users st))
     \<and> list_all (\<lambda>r. normalize_email (u_email r) = u_email r) (users st)
     \<and> sorted_wrt (<) (map u_id (users st))
     \<and> list_all (\<lambda>r. u_id r \<le> users_seq st) (users st)
     \<and> sorted_wrt (<) (map d_id (documents st))
     \<and> list_all (\<lambda>d. d_id d \<le> documents_seq st) (documents st)"

section \<open>Lookups and updates by email\<close>

lemma find_email_map:
  assumes "\<And>r. u_email (f r) = u_email r"
  shows "List.find (\<lambda>r. u_email r = e) (map (\<lambda>r. if u_email r = e then f r else r) xs)
         = map_option f (List.find (\<lambda>r. u_email r = e) xs)"
  by (induction xs) (simp_all add: assms)

lemma map_no_match:
  "List.find (\<lambda>r. u_email r = e) xs = None \<Longrightarrow>
   map (\<lambda>r. if u_email r = e then f r else r) xs = xs"
  by (induction xs) (simp_all split: if_splits)

lemma filter_no_match:
  "List.find (\<lambda>r. u_email r = e) xs = None \<longleftrightarrow> filter (\<lambda>r. u_email r = e) xs = []"
  by (induction xs) (simp_all split: if_splits)

lemma find_Some_email: "List.find (\<lambda>r. u_email r = e) xs = Some row \<Longrightarrow> u_email row = e"
  by (induction xs) (simp_all split: if_splits)

section \<open>Reset tokens are redeemed once\<close>

text \<open>
  C1. Let \<open>email\<close> be registered with the pending token \<open>token\<close>, let \<open>old_password\<close>
  be the password that verified before the call, and \<open>new_password\<close> another one. Then
  \<open>reset_password\<close> with that token succeeds, and the one database it leaves behind
  holds the hash of \<open>new_password\<close> and no token for the user. In that database a
  second \<open>reset_password\<close> with the same token fails with \<open>InvalidToken\<close> and changes
  nothing, \<open>verify_user\<close> accepts \<open>new_password\<close> and rejects \<open>old_password\<close>. What is
  assumed of bcrypt is its contract for the hash just made: \<open>checkpw\<close> accepts against
  it the password it was made of and no other.
\<close>

theorem reset_password_single_use:
  assumes reg: "List.find (\<lambda>r. u_email r = normalize_email email) (users st) = Some row"
    and tok: "u_reset_token row = Some token"
    and old: "verify_user B email old_password st = Some (u_id row, u_email row)"
    and differ: "old_password \<noteq> new_password"
    and contract: "\<forall>p. checkpw B p (hashpw B new_password salt) = Some (p = new_password)"
  defines "st' \<equiv> snd (reset_password B salt email token new_password st)"
  shows "reset_password B salt email token new_password st
           = ((True, ''Password has been reset successfully.''), st')
       \<and> List.find (\<lambda>r. u_email r = normalize_email email) (users st')
           = Some (row\<lparr>u_password_hash := hashpw B new_password salt, u_reset_token := None\<rparr>)
       \<and> reset_password B salt2 email token password2 st' = (InvalidToken, st')
       \<and> verify_user B email new_password st' = Some (u_id row, u_email row)
       \<and> verify_user B email old_password st' = None"
proof -
  let ?e = "normalize_email email"
  let ?f = "\<lambda>r. r\<lparr>u_password_hash := hashpw B new_password salt, u_reset_token := None\<rparr>"
  have st': "st' = st\<lparr>users := map (\<lambda>r. if u_email r = ?e then ?f r else r) (users st)\<rparr>"
    using reg tok by (simp add: st'_def reset_password_def)
  have res: "reset_password B salt email token new_password st
           = ((True, ''Password has been reset successfully.''), st')"
    using reg tok by (simp add: st' reset_password_def)
  have fnd: "List.find (\<lambda>r. u_email r = ?e) (users st') = Some (?f row)"
    unfolding st' using find_email_map[of ?f ?e "users st"] reg by simp
  have again: "reset_password B salt2 email token password2 st' = (InvalidToken, st')"
    using fnd by (simp add: reset_password_def InvalidToken_def)
  have new_ok: "checkpw B new_password (hashpw B new_password salt) = Some True"
    using contract by simp
  have old_no: "checkpw B old_password (hashpw B new_password salt) = Some False"
    using contract differ by simp
  have vnew: "verify_user B email new_password st' = Some (u_id row, u_email row)"
    using fnd new_ok by (simp add: verify_user_def)
  have vold: "verify_user B email old_password st' = None"
    using fnd old_no by (simp add: verify_user_def)
  show ?thesis using res fnd again vnew vold by simp
qed

theorem reset_password_single_use_witness:
  "reset_password demo_bcrypt ''s2'' ''A@X.COM'' ''T1'' ''pw2'' demo_db
     = ((True, ''Password has been reset successfully.''),
        snd (reset_password demo_bcrypt ''s2'' ''A@X.COM'' ''T1'' ''pw2'' demo_db))
   \<and> reset_password demo_bcrypt ''s3'' ''A@X.COM'' ''T1'' ''pw3''
        (snd (reset_password demo_bcrypt ''s2'' ''A@X.COM'' ''T1'' ''pw2'' demo_db))
       = (InvalidToken, snd (reset_password demo_bcrypt ''s2'' ''A@X.COM'' ''T1'' ''pw2'' demo_db))
   \<and> verify_user demo_bcrypt ''A@X.COM'' ''pw2''
        (snd (reset_password demo_bcrypt ''s2'' ''A@X.COM'' ''T1'' ''pw2'' demo_db))
       = Some (1, ''a@x.com'')
   \<and> verify_user demo_bcrypt ''A@X.COM'' ''pw1''
        (snd (reset_password demo_bcrypt ''s2'' ''A@X.COM'' ''T1'' ''pw2'' demo_db)) = None"
proof -
  let ?row = "\<lparr>u_id = 1, u_email = ''a@x.com'', u_password_hash = ''s1pw1'',
     u_reset_token = Some ''T1'', u_created_at = ''2024-01-01''\<rparr>"
  have h1: "List.find (\<lambda>r. u_email r = normalize_email ''A@X.COM'') (users demo_db) = Some ?row"
    by code_simp
  have h2: "u_reset_token ?row = Some ''T1''" by simp
  have h3: "verify_user demo_bcrypt ''A@X.COM'' ''pw1'' demo_db = Some (u_id ?row, u_email ?row)"
    by code_simp
  have h4: "''pw1'' \<noteq> ''pw2''" by simp
  have h5: "\<forall>p. checkpw demo_bcrypt p (hashpw demo_bcrypt ''pw2'' ''s2'') = Some (p = ''pw2'')"
    by (auto simp: demo_bcrypt_def)
  show ?thesis
    using reset_password_single_use [OF h1 h2 h3 h4 h5, of "''s3''" "''pw3''"] by simp
qed

lemma find_append:
  "List.find P (xs @ ys) = (case List.find P xs of None \<Rightarrow> List.find P ys | Some x \<Rightarrow> Some x)"
  by (induction xs) simp_all

lemma filter_other_map:
  "filter (\<lambda>r. u_email r \<noteq> e) (map (\<lambda>r. if u_email r = e then f r else r) xs)
     = filter (\<lambda>r. u_email r \<noteq> e) xs" if "\<And>r. u_email (f r) = u_email r"
  by (induction xs) (simp_all add: that)

lemma create_reset_token_snd:
  "snd (create_reset_token token email st)
     = st\<lparr>users := map (\<lambda>r. if u_email r = normalize_email email
                              then r\<lparr>u_reset_token := Some token\<rparr> else r) (users st)\<rparr>"
  by (simp add: create_reset_token_def Let_def)

lemma create_reset_token_find:
  "List.find (\<lambda>r. u_email r = normalize_email email) (users (snd (create_reset_token token email st)))
     = map_option (\<lambda>r. r\<lparr>u_reset_token := Some token\<rparr>)
         (List.find (\<lambda>r. u_email r = normalize_email email) (users st))"
  using find_email_map [of "\<lambda>r. r\<lparr>u_reset_token := Some token\<rparr>" "normalize_email email" "users st"]
  by (simp add: create_reset_token_snd)

section \<open>Registration and login\<close>

text \<open>
  C2. Whenever \<open>add_user\<close> accepts an email and a password, that is, returns
  \<open>Registration successful.\<close>, both were non-empty and the normalized email was not
  registered; the call has inserted one row under the next id \<open>users_seq st + 1\<close>, and
  \<open>verify_user\<close> with the same email and password, run on the database \<open>add_user\<close>
  leaves behind, returns that id. The assumption on bcrypt is that \<open>checkpw\<close> accepts
  the password against the hash just made of it.
\<close>

theorem add_user_then_verify_user:
  fixes now :: string
  assumes accepted: "fst (add_user B locked salt now email password st)
                       = (True, ''Registration successful.'')"
    and chk: "checkpw B password (hashpw B password salt) = Some True"
  defines "st' \<equiv> snd (add_user B locked salt now email password st)"
  shows "email \<noteq> [] \<and> password \<noteq> []
       \<and> List.find (\<lambda>r. u_email r = normalize_email email) (users st) = None
       \<and> users st' = users st @
           [\<lparr>u_id = users_seq st + 1, u_email = normalize_email email,
             u_password_hash = hashpw B password salt, u_reset_token = None,
             u_created_at = now\<rparr>]
       \<and> verify_user B email password st' = Some (users_seq st + 1, normalize_email email)"
proof -
  let ?row = "\<lparr>u_id = users_seq st + 1, u_email = normalize_email email,
             u_password_hash = hashpw B password salt, u_reset_token = None,
             u_created_at = now\<rparr>"
  have e: "email \<noteq> []" and p: "password \<noteq> []"
    using accepted by (auto simp: add_user_def)
  have unlocked: "\<not> locked"
    using accepted e p by (auto simp: add_user_def Let_def)
  have fresh: "List.find (\<lambda>r. u_email r = normalize_email email) (users st) = None"
    using accepted e p unlocked by (auto simp: add_user_def Let_def split: if_splits)
  have res: "add_user B locked salt now email password st
      = ((True, ''Registration successful.''),
         st\<lparr>users := users st @ [?row], users_seq := users_seq st + 1\<rparr>)"
    using e p unlocked fresh by (simp add: add_user_def)
  have us: "users st' = users st @ [?row]"
    by (simp add: st'_def res)
  have "List.find (\<lambda>r. u_email r = normalize_email email) (users st') = Some ?row"
    by (simp add: us find_append fresh)
  then have "verify_user B email password st' = Some (users_seq st + 1, normalize_email email)"
    using chk by (simp add: verify_user_def)
  with e p fresh us show ?thesis by simp
qed

theorem add_user_then_verify_user_witness:
  "users (snd (add_user demo_bcrypt False ''s9'' ''2024-02-02'' ''  Bob@Y.org'' ''hunter2'' demo_db))
     = users demo_db @
         [\<lparr>u_id = 2, u_email = ''bob@y.org'', u_password_hash = ''s9hunter2'',
           u_reset_token = None, u_created_at = ''2024-02-02''\<rparr>]
   \<and> verify_user demo_bcrypt ''  Bob@Y.org'' ''hunter2''
       (snd (add_user demo_bcrypt False ''s9'' ''2024-02-02'' ''  Bob@Y.org'' ''hunter2'' demo_db))
     = Some (2, ''bob@y.org'')"
proof -
  have h1: "fst (add_user demo_bcrypt False ''s9'' ''2024-02-02'' ''  Bob@Y.org'' ''hunter2'' demo_db)
      = (True, ''Registration successful.'')"
    by code_simp
  have h2: "checkpw demo_bcrypt ''hunter2'' (hashpw demo_bcrypt ''hunter2'' ''s9'') = Some True"
    by (simp add: demo_bcrypt_def)
  have n: "normalize_email ''  Bob@Y.org'' = ''bob@y.org''" by code_simp
  have s: "users_seq demo_db = 1" by code_simp
  have h: "hashpw demo_bcrypt ''hunter2'' ''s9'' = ''s9hunter2''"
    by (simp add: demo_bcrypt_def)
  show ?thesis
    using add_user_then_verify_user [OF h1 h2] by (simp add: n s h)
qed

text \<open>
  C6. \<open>verify_user\<close> returns \<open>None\<close> when no row has the normalized email, when
  \<open>checkpw\<close> answers \<open>False\<close> for the stored hash, and when \<open>checkpw\<close> raises: the
  same value in all three cases, and never an error. It returns a user only for a row
  that \<open>checkpw\<close> accepts.
\<close>

theorem verify_user_fails_closed:
  "(List.find (\<lambda>r. u_email r = normalize_email email) (users st) = None
      \<longrightarrow> verify_user B email password st = None)
   \<and> (\<forall>row. List.find (\<lambda>r. u_email r = normalize_email email) (users st) = Some row
            \<and> checkpw B password (u_password_hash row) = Some False
      \<longrightarrow> verify_user B email password st = None)
   \<and> (\<forall>row. List.find (\<lambda>r. u_email r = normalize_email email) (users st) = Some row
            \<and> checkpw B password (u_password_hash row) = None
      \<longrightarrow> verify_user B email password st = None)
   \<and> (\<forall>u. verify_user B email password st = Some u
      \<longrightarrow> (\<exists>row. List.find (\<lambda>r. u_email r = normalize_email email) (users st) = Some row
                \<and> checkpw B password (u_password_hash row) = Some True
                \<and> u = (u_id row, u_email row)))"
  by (auto simp: verify_user_def split: option.splits bool.splits)

theorem verify_user_fails_closed_witness:
  "verify_user demo_bcrypt ''nobody@x.com'' ''pw1'' demo_db = None
   \<and> verify_user demo_bcrypt ''a@x.com'' ''wrong'' demo_db = None
   \<and> verify_user (demo_bcrypt\<lparr>checkpw := \<lambda>password h. None\<rparr>) ''a@x.com'' ''pw1'' demo_db = None"
proof -
  let ?row = "\<lparr>u_id = 1, u_email = ''a@x.com'', u_password_hash = ''s1pw1'',
     u_reset_token = Some ''T1'', u_created_at = ''2024-01-01''\<rparr>"
  let ?R = "demo_bcrypt\<lparr>checkpw := \<lambda>password h. None\<rparr>"
  have a: "List.find (\<lambda>r. u_email r = normalize_email ''nobody@x.com'') (users demo_db) = None"
    by code_simp
  have b: "List.find (\<lambda>r. u_email r = normalize_email ''a@x.com'') (users demo_db) = Some ?row"
    by code_simp
  have c: "checkpw demo_bcrypt ''wrong'' (u_password_hash ?row) = Some False"
    by (simp add: demo_bcrypt_def)
  have d: "checkpw ?R ''pw1'' (u_password_hash ?row) = None"
    by simp
  from verify_user_fails_closed [of "''nobody@x.com''" demo_db demo_bcrypt "''pw1''"] a
  have 1: "verify_user demo_bcrypt ''nobody@x.com'' ''pw1'' demo_db = None" by blast
  from verify_user_fails_closed [of "''a@x.com''" demo_db demo_bcrypt "''wrong''"] b c
  have 2: "verify_user demo_bcrypt ''a@x.com'' ''wrong'' demo_db = None" by blast
  from verify_user_fails_closed [of "''a@x.com''" demo_db ?R "''pw1''"] b d
  have 3: "verify_user ?R ''a@x.com'' ''pw1'' demo_db = None" by blast
  from 1 2 3 show ?thesis by simp
qed

section \<open>Issuing tokens\<close>

text \<open>
  C7. For an unregistered email \<open>create_reset_token\<close> returns \<open>None\<close> and leaves the
  database as it was. For a registered email it returns the token it was given and
  the user's row then holds exactly that token, whatever it held before; rows of other
  emails and the documents are unchanged. After a second issue with a different token,
  \<open>reset_password\<close> with the first token fails with \<open>InvalidToken\<close> and changes
  nothing.
\<close>

theorem create_reset_token_issue:
  fixes B :: bcrypt and salt new_password token token2 email :: string and st :: db
  defines "e \<equiv> normalize_email email"
  defines "st1 \<equiv> snd (create_reset_token token email st)"
  defines "st2 \<equiv> snd (create_reset_token token2 email st1)"
  shows "(List.find (\<lambda>r. u_email r = e) (users st) = None
            \<longrightarrow> create_reset_token token email st = (None, st))
       \<and> (\<forall>row. List.find (\<lambda>r. u_email r = e) (users st) = Some row
            \<longrightarrow> fst (create_reset_token token email st) = Some token
              \<and> List.find (\<lambda>r. u_email r = e) (users st1) = Some (row\<lparr>u_reset_token := Some token\<rparr>)
              \<and> filter (\<lambda>r. u_email r \<noteq> e) (users st1) = filter (\<lambda>r. u_email r \<noteq> e) (users st)
              \<and> documents st1 = documents st)
       \<and> (token2 \<noteq> token
            \<longrightarrow> reset_password B salt email token new_password st2 = (InvalidToken, st2))"
proof (intro conjI allI impI)
  assume none: "List.find (\<lambda>r. u_email r = e) (users st) = None"
  then have "filter (\<lambda>r. u_email r = e) (users st) = []"
    by (simp add: filter_no_match)
  moreover have "st\<lparr>users := users st\<rparr> = st" by simp
  ultimately show "create_reset_token token email st = (None, st)"
    using none by (simp add: create_reset_token_def Let_def e_def [symmetric] map_no_match)
next
  fix row
  assume some: "List.find (\<lambda>r. u_email r = e) (users st) = Some row"
  then have "filter (\<lambda>r. u_email r = e) (users st) \<noteq> []"
    using filter_no_match [of e "users st"] by simp
  then show "fst (create_reset_token token email st) = Some token"
    by (simp add: create_reset_token_def Let_def e_def [symmetric])
  show "List.find (\<lambda>r. u_email r = e) (users st1) = Some (row\<lparr>u_reset_token := Some token\<rparr>)"
    using some by (simp add: st1_def e_def create_reset_token_find)
  show "filter (\<lambda>r. u_email r \<noteq> e) (users st1) = filter (\<lambda>r. u_email r \<noteq> e) (users st)"
    by (simp add: st1_def e_def create_reset_token_snd filter_other_map)
  show "documents st1 = documents st"
    by (simp add: st1_def create_reset_token_snd)
next
  assume neq: "token2 \<noteq> token"
  have "List.find (\<lambda>r. u_email r = e) (users st2)
      = map_option (\<lambda>r. r\<lparr>u_reset_token := Some token2\<rparr>) (List.find (\<lambda>r. u_email r = e) (users st1))"
    by (simp add: st2_def e_def create_reset_token_find)
  then show "reset_password B salt email token new_password st2 = (InvalidToken, st2)"
    using neq
    by (cases "List.find (\<lambda>r. u_email r = e) (users st1)")
       (simp_all add: reset_password_def InvalidToken_def e_def [symmetric])
qed

theorem create_reset_token_issue_witness:
  "create_reset_token ''T2'' ''nobody@x.com'' demo_db = (None, demo_db)
   \<and> fst (create_reset_token ''T2'' '' A@X.com'' demo_db) = Some ''T2''
   \<and> List.find (\<lambda>r. u_email r = ''a@x.com'') (users (snd (create_reset_token ''T2'' '' A@X.com'' demo_db)))
       = Some \<lparr>u_id = 1, u_email = ''a@x.com'', u_password_hash = ''s1pw1'',
               u_reset_token = Some ''T2'', u_created_at = ''2024-01-01''\<rparr>
   \<and> reset_password demo_bcrypt ''s2'' '' A@X.com'' ''T2'' ''pw2''
        (snd (create_reset_token ''T3'' '' A@X.com'' (snd (create_reset_token ''T2'' '' A@X.com'' demo_db))))
       = (InvalidToken,
          snd (create_reset_token ''T3'' '' A@X.com'' (snd (create_reset_token ''T2'' '' A@X.com'' demo_db))))"
proof -
  let ?row = "\<lparr>u_id = 1, u_email = ''a@x.com'', u_password_hash = ''s1pw1'',
     u_reset_token = Some ''T1'', u_created_at = ''2024-01-01''\<rparr>"
  have n1: "normalize_email ''nobody@x.com'' = ''nobody@x.com''" by code_simp
  have n2: "normalize_email '' A@X.com'' = ''a@x.com''" by code_simp
  have a: "List.find (\<lambda>r. u_email r = ''nobody@x.com'') (users demo_db) = None"
    by code_simp
  have b: "List.find (\<lambda>r. u_email r = ''a@x.com'') (users demo_db) = Some ?row"
    by code_simp
  have c: "''T3'' \<noteq> ''T2''" by simp
  from create_reset_token_issue [of "''nobody@x.com''" demo_db "''T2''"] a
  have 1: "create_reset_token ''T2'' ''nobody@x.com'' demo_db = (None, demo_db)"
    by (simp add: n1)
  from create_reset_token_issue [of "'' A@X.com''" demo_db "''T2''" "''T3''" demo_bcrypt "''s2''" "''pw2''"] b c
  have 2: "fst (create_reset_token ''T2'' '' A@X.com'' demo_db) = Some ''T2''
    \<and> List.find (\<lambda>r. u_email r = ''a@x.com'') (users (snd (create_reset_token ''T2'' '' A@X.com'' demo_db)))
       = Some (?row\<lparr>u_reset_token := Some ''T2''\<rparr>)
    \<and> reset_password demo_bcrypt ''s2'' '' A@X.com'' ''T2'' ''pw2''
        (snd (create_reset_token ''T3'' '' A@X.com'' (snd (create_reset_token ''T2'' '' A@X.com'' demo_db))))
       = (InvalidToken,
          snd (create_reset_token ''T3'' '' A@X.com'' (snd (create_reset_token ''T2'' '' A@X.com'' demo_db))))"
    by (simp add: n2)
  from 1 2 show ?thesis by simp
qed

text \<open>
  C10. \<open>reset_password\<close> does not look at \<open>new_password\<close>: for a registered email
  with a pending token, the matching token and the empty password succeed, and the
  stored hash becomes the hash of the empty string. \<open>add_user\<close> with an empty password
  fails with \<open>InvalidInput\<close> and changes nothing.
\<close>

theorem reset_password_empty_password:
  fixes B :: bcrypt and salt :: bytes
  assumes reg: "List.find (\<lambda>r. u_email r = normalize_email email) (users st) = Some row"
    and tok: "u_reset_token row = Some token"
  defines "st' \<equiv> snd (reset_password B salt email token [] st)"
  shows "fst (reset_password B salt email token [] st)
           = (True, ''Password has been reset successfully.'')
       \<and> List.find (\<lambda>r. u_email r = normalize_email email) (users st')
           = Some (row\<lparr>u_password_hash := hashpw B [] salt, u_reset_token := None\<rparr>)
       \<and> add_user B locked salt2 now email2 [] st2 = (InvalidInput, st2)"
proof -
  let ?e = "normalize_email email"
  let ?f = "\<lambda>r. r\<lparr>u_password_hash := hashpw B [] salt, u_reset_token := None\<rparr>"
  have st': "st' = st\<lparr>users := map (\<lambda>r. if u_email r = ?e then ?f r else r) (users st)\<rparr>"
    using reg tok by (simp add: st'_def reset_password_def)
  have res: "reset_password B salt email token [] st
           = ((True, ''Password has been reset successfully.''), st')"
    using reg tok by (simp add: st' reset_password_def)
  have fnd: "List.find (\<lambda>r. u_email r = ?e) (users st') = Some (?f row)"
    unfolding st' using find_email_map[of ?f ?e "users st"] reg by simp
  have reg_rejects: "add_user B locked salt2 now email2 [] st2 = (InvalidInput, st2)"
    by (simp add: add_user_def InvalidInput_def)
  from res fnd reg_rejects show ?thesis by simp
qed

theorem reset_password_empty_password_witness:
  "fst (reset_password demo_bcrypt ''s2'' ''a@x.com'' ''T1'' [] demo_db)
       = (True, ''Password has been reset successfully.'')
   \<and> map u_password_hash (users (snd (reset_password demo_bcrypt ''s2'' ''a@x.com'' ''T1'' [] demo_db)))
       = [hashpw demo_bcrypt [] ''s2'']
   \<and> add_user demo_bcrypt False ''s3'' ''2024-03-03'' ''c@x.com'' [] demo_db
       = (InvalidInput, demo_db)"
proof -
  let ?row = "\<lparr>u_id = 1, u_email = ''a@x.com'', u_password_hash = ''s1pw1'',
     u_reset_token = Some ''T1'', u_created_at = ''2024-01-01''\<rparr>"
  have h1: "List.find (\<lambda>r. u_email r = normalize_email ''a@x.com'') (users demo_db) = Some ?row"
    by code_simp
  have h2: "u_reset_token ?row = Some ''T1''" by simp
  have m: "map u_password_hash (users (snd (reset_password demo_bcrypt ''s2'' ''a@x.com'' ''T1'' [] demo_db)))
       = [hashpw demo_bcrypt [] ''s2'']" by code_simp
  show ?thesis
    using reset_password_empty_password
            [OF h1 h2, where B = demo_bcrypt and salt = "''s2''" and locked = False
               and ?salt2.0 = "''s3''" and now = "''2024-03-03''" and ?email2.0 = "''c@x.com''"
               and ?st2.0 = demo_db] m
    by simp
qed

section \<open>Normalized emails\<close>

lemma lower_char_idem: "lower_char (lower_char c) = lower_char c"
  by (simp add: lower_char_def)

lemma isspace_lower_char: "isspace (lower_char c) = isspace c"
  by (simp add: lower_char_def isspace_def)

lemma strip_Nil: "strip [] = []"
  by (simp add: strip_def)

lemma strip_lower: "strip (lower s) = lower (strip s)"
proof -
  have "isspace \<circ> lower_char = isspace"
    by (rule ext) (simp add: isspace_lower_char)
  then show ?thesis
    by (simp add: strip_def lower_def dropWhile_map rev_map)
qed

lemma dropWhile_rev_dropWhile:
  assumes "dropWhile P t = t"
  shows "dropWhile P (rev (dropWhile P (rev t))) = rev (dropWhile P (rev t))"
proof (cases "dropWhile P (rev t) = []")
  case True
  then have "rev (dropWhile P (rev t)) = []" by simp
  then show ?thesis by (simp only: dropWhile.simps)
next
  case False
  let ?u = "rev (dropWhile P (rev t))"
  have "?u @ rev (takeWhile P (rev t)) = rev (takeWhile P (rev t) @ dropWhile P (rev t))"
    by (simp only: rev_append)
  also have "\<dots> = t"
    by (simp only: takeWhile_dropWhile_id rev_rev_ident)
  finally have t: "t = ?u @ rev (takeWhile P (rev t))" by (rule sym)
  have u: "?u \<noteq> []" using False by simp
  have "t \<noteq> []" using t u by auto
  then have "\<not> P (hd t)" using assms by (simp add: dropWhile_eq_self_iff)
  moreover have "hd t = hd ?u" using t u by (metis hd_append2)
  ultimately show ?thesis using u by (simp add: dropWhile_eq_self_iff)
qed

lemma strip_idem: "strip (strip s) = strip s"
  by (simp add: strip_def dropWhile_rev_dropWhile)

lemma normalize_email_idem: "normalize_email (normalize_email e) = normalize_email e"
  by (simp add: normalize_email_def strip_lower strip_idem) (simp add: lower_def lower_char_idem)

section \<open>Every reachable database is well-formed\<close>

lemma db_ok_init_db: "db_ok init_db"
  by (simp add: db_ok_def init_db_def)

lemma find_None_email: "List.find (\<lambda>r. u_email r = e) xs = None \<longleftrightarrow> e \<notin> set (map u_email xs)"
  by (induction xs) auto

lemma db_ok_add_user:
  assumes "db_ok st"
  shows "db_ok (snd (add_user B locked salt now email password st))"
proof (cases "email = [] \<or> password = [] \<or> locked
    \<or> List.find (\<lambda>r. u_email r = normalize_email email) (users st) \<noteq> None")
  case True
  then have "snd (add_user B locked salt now email password st) = st"
    by (auto simp: add_user_def Let_def)
  with assms show ?thesis by simp
next
  case False
  then have fresh: "normalize_email email \<notin> set (map u_email (users st))"
    using find_None_email by blast
  have st': "snd (add_user B locked salt now email password st)
      = st\<lparr>users := users st @
                     [\<lparr>u_id = users_seq st + 1, u_email = normalize_email email,
                       u_password_hash = hashpw B password salt,
                       u_reset_token = None, u_created_at = now\<rparr>],
                 users_seq := users_seq st + 1\<rparr>"
    using False by (simp add: add_user_def Let_def)
  have a: "list_all (\<lambda>r. u_id r \<le> users_seq st) (users st)"
    using assms by (simp add: db_ok_def)
  then have b: "list_all (\<lambda>r. u_id r \<le> users_seq st + 1) (users st)"
    by (induction "users st") (auto simp: list_all_iff)
  have c: "\<forall>x\<in>set (users st). u_id x < users_seq st + 1"
    using a by (auto simp: list_all_iff)
  show ?thesis
    unfolding st' using assms fresh b c
    by (simp add: db_ok_def sorted_wrt_append normalize_email_idem)
qed

lemma map_upd_email:
  "(\<And>r. u_email (f r) = u_email r) \<Longrightarrow>
   map u_email (map (\<lambda>r. if u_email r = e then f r else r) xs) = map u_email xs"
  by (induction xs) simp_all

lemma map_upd_id:
  "(\<And>r. u_id (f r) = u_id r) \<Longrightarrow>
   map u_id (map (\<lambda>r. if u_email r = e then f r else r) xs) = map u_id xs"
  by (induction xs) simp_all

lemma list_all_upd:
  "(\<And>r. P (f r) = P r) \<Longrightarrow>
   list_all P (map (\<lambda>r. if u_email r = e then f r else r) xs) = list_all P xs"
  by (induction xs) simp_all

lemma db_ok_update_users:
  assumes "db_ok st" and "\<And>r. u_email (f r) = u_email r" and "\<And>r. u_id (f r) = u_id r"
  shows "db_ok (st\<lparr>users := map (\<lambda>r. if u_email r = e then f r else r) (users st)\<rparr>)"
proof -
  let ?g = "\<lambda>r. if u_email r = e then f r else r"
  have em: "map u_email (map ?g (users st)) = map u_email (users st)"
    by (rule map_upd_email) (rule assms(2))
  have ids: "map u_id (map ?g (users st)) = map u_id (users st)"
    by (rule map_upd_id) (rule assms(3))
  have norm: "list_all (\<lambda>r. normalize_email (u_email r) = u_email r) (map ?g (users st))
      = list_all (\<lambda>r. normalize_email (u_email r) = u_email r) (users st)"
    by (rule list_all_upd) (simp add: assms(2))
  have bound: "list_all (\<lambda>r. u_id r \<le> users_seq st) (map ?g (users st))
      = list_all (\<lambda>r. u_id r \<le> users_seq st) (users st)"
    by (rule list_all_upd) (simp add: assms(3))
  show ?thesis
    using assms(1) by (simp add: db_ok_def em ids norm bound del: map_map)
qed

lemma db_ok_create_reset_token:
  "db_ok st \<Longrightarrow> db_ok (snd (create_reset_token token email st))"
  by (simp add: create_reset_token_def Let_def db_ok_update_users)

lemma db_ok_reset_password:
  "db_ok st \<Longrightarrow> db_ok (snd (reset_password B salt email token new_password st))"
  by (simp add: reset_password_def Let_def db_ok_update_users split: option.splits)

lemma db_ok_save_document:
  assumes "db_ok st"
  shows "db_ok (save_document user_id content filename mime now st)"
proof -
  have a: "list_all (\<lambda>d. d_id d \<le> documents_seq st) (documents st)"
    using assms by (simp add: db_ok_def)
  then have b: "list_all (\<lambda>d. d_id d \<le> documents_seq st + 1) (documents st)"
    by (auto simp: list_all_iff)
  have c: "\<forall>x\<in>set (documents st). d_id x < documents_seq st + 1"
    using a by (auto simp: list_all_iff)
  show ?thesis
    using assms b c by (simp add: db_ok_def save_document_def sorted_wrt_append)
qed

lemma db_ok_delete_document:
  assumes "db_ok st"
  shows "db_ok (delete_document doc_id user_id st)"
proof -
  have "list_all (\<lambda>d. d_id d \<le> documents_seq st) (filter P (documents st))" for P
    using assms by (auto simp: db_ok_def list_all_iff)
  moreover have "sorted_wrt (<) (map d_id (filter P (documents st)))" for P
    using assms by (simp add: db_ok_def sorted_wrt_map sorted_wrt_filter)
  ultimately show ?thesis
    using assms by (simp add: db_ok_def delete_document_def)
qed

lemma db_ok_exec: "db_ok st \<Longrightarrow> db_ok (exec B c st)"
  by (cases c)
     (simp_all add: db_ok_add_user db_ok_create_reset_token db_ok_reset_password
        db_ok_save_document db_ok_delete_document)

lemma db_ok_run_from: "db_ok st \<Longrightarrow> db_ok (run B cs st)"
  unfolding run_def by (induction cs arbitrary: st) (simp_all add: db_ok_exec)

lemma db_ok_run: "db_ok (run B cs init_db)"
  by (rule db_ok_run_from [OF db_ok_init_db])

lemma db_ok_distinct_normalized:
  assumes "db_ok st"
  shows "distinct (map (\<lambda>r. normalize_email (u_email r)) (users st))"
proof -
  have eq: "map (\<lambda>r. normalize_email (u_email r)) (users st) = map u_email (users st)"
    using assms by (auto simp: db_ok_def list_all_iff)
  have "distinct (map u_email (users st))"
    using assms by (simp add: db_ok_def)
  then show ?thesis unfolding eq .
qed

lemma db_ok_sort_documents:
  assumes "db_ok st"
  shows "sort_key d_id (filter P (documents st)) = filter P (documents st)"
proof -
  have "sorted_wrt (<) (map d_id (filter P (documents st)))"
    using assms by (simp add: db_ok_def sorted_wrt_map sorted_wrt_filter)
  then have "sorted (map d_id (filter P (documents st)))"
    by (rule strict_sorted_imp_sorted)
  then show ?thesis by (rule sort_key_id_if_sorted)
qed

lemma db_ok_list_documents:
  "db_ok st \<Longrightarrow>
   list_documents user_id st
     = map select_columns (rev (filter (\<lambda>d. d_user_id d = user_id) (documents st)))"
  by (simp add: list_documents_def db_ok_sort_documents)

lemma db_ok_distinct_ids: "db_ok st \<Longrightarrow> distinct (map d_id (documents st))"
  by (simp add: db_ok_def strict_sorted_iff)

lemma fst_select_columns: "fst (select_columns d) = d_id d"
  by (simp add: select_columns_def)

lemma listed_ids:
  "db_ok st \<Longrightarrow>
   map fst (list_documents user_id st)
     = rev (map d_id (filter (\<lambda>d. d_user_id d = user_id) (documents st)))"
  by (simp add: db_ok_list_documents rev_map fst_select_columns comp_def)

lemma delete_document_no_match:
  "\<forall>d\<in>set (documents st). \<not> (d_id d = doc_id \<and> d_user_id d = user_id) \<Longrightarrow>
   delete_document doc_id user_id st = st"
proof -
  assume "\<forall>d\<in>set (documents st). \<not> (d_id d = doc_id \<and> d_user_id d = user_id)"
  then have "filter (\<lambda>d. \<not> (d_id d = doc_id \<and> d_user_id d = user_id)) (documents st)
      = documents st"
    by (simp add: filter_id_conv)
  then show ?thesis by (simp add: delete_document_def)
qed

lemma filter_swap: "filter P (filter Q xs) = filter Q (filter P xs)"
  by (induction xs) simp_all

section \<open>One user per email\<close>

text \<open>
  The tables never hold two users with the same normalized email, and a duplicate that
  reaches its \<open>INSERT\<close> with the write lock free is refused with \<open>DuplicateEmail\<close>,
  for a password bcrypt takes. A call that does not succeed leaves the tables as they
  were.
\<close>

lemma run_distinct_normalized:
  "distinct (map (\<lambda>r. normalize_email (u_email r)) (users (run B cs init_db)))"
  by (rule db_ok_distinct_normalized [OF db_ok_run])

lemma add_user_duplicate_unlocked:
  assumes "List.find (\<lambda>r. u_email r = normalize_email email) (users st) \<noteq> None"
    and "normalize_email email2 = normalize_email email"
    and "email2 \<noteq> []" and "password \<noteq> []"
    and "checkpw B password (hashpw B password salt) = Some True"
  shows "add_user B False salt now email2 password st = (DuplicateEmail, st)"
  using assms by (simp add: add_user_def DuplicateEmail_def)

lemma add_user_failure_keeps_db:
  "fst (add_user B locked salt now email password st) \<noteq> (True, ''Registration successful.'')
   \<Longrightarrow> snd (add_user B locked salt now email password st) = st"
  by (auto simp: add_user_def Let_def split: if_splits)


section \<open>Documents are scoped by owner\<close>

text \<open>
  C8. In every reachable database \<open>list_documents\<close> returns the rows of the owner's
  documents, all of them and no others, in the reverse of insertion order, which is
  strictly decreasing in id; a document of another owner is never among them. A
  document just saved is the first row of its owner's list and does not appear in
  any other owner's list.
\<close>

theorem list_documents_owner_scoped:
  fixes B :: bcrypt and cs :: "call list" and user_id :: int
  defines "st \<equiv> run B cs init_db"
  shows "list_documents user_id st
           = map select_columns (rev (filter (\<lambda>d. d_user_id d = user_id) (documents st)))
       \<and> sorted_wrt (>) (map fst (list_documents user_id st))
       \<and> (\<forall>d. d \<in> set (documents st) \<and> d_user_id d \<noteq> user_id
            \<longrightarrow> d_id d \<notin> set (map fst (list_documents user_id st)))
       \<and> list_documents user_id (save_document user_id content filename mime now st)
           = (documents_seq st + 1, filename, mime, content, now) # list_documents user_id st
       \<and> (other_id \<noteq> user_id
            \<longrightarrow> list_documents other_id (save_document user_id content filename mime now st)
                = list_documents other_id st)"
proof -
  have ok: "db_ok st" unfolding st_def by (rule db_ok_run)
  then have ok': "db_ok (save_document user_id content filename mime now st)"
    by (rule db_ok_save_document)
  have 1: "list_documents user_id st
           = map select_columns (rev (filter (\<lambda>d. d_user_id d = user_id) (documents st)))"
    using ok by (rule db_ok_list_documents)
  have "sorted_wrt (<) (map d_id (filter (\<lambda>d. d_user_id d = user_id) (documents st)))"
    using ok by (simp add: db_ok_def sorted_wrt_map sorted_wrt_filter)
  then have 2: "sorted_wrt (>) (map fst (list_documents user_id st))"
    by (simp add: listed_ids [OF ok] sorted_wrt_rev)
  have 3: "d_id d \<notin> set (map fst (list_documents user_id st))"
    if "d \<in> set (documents st)" and "d_user_id d \<noteq> user_id" for d
  proof
    assume "d_id d \<in> set (map fst (list_documents user_id st))"
    then obtain d' where d': "d' \<in> set (documents st)" "d_user_id d' = user_id" "d_id d' = d_id d"
      by (auto simp: listed_ids [OF ok])
    have "inj_on d_id (set (documents st))"
      using db_ok_distinct_ids [OF ok] by (simp add: distinct_map)
    then have "d' = d" using d' that(1) by (auto dest: inj_onD)
    then show False using d' that(2) by simp
  qed
  have 4: "list_documents user_id (save_document user_id content filename mime now st)
           = (documents_seq st + 1, filename, mime, content, now) # list_documents user_id st"
    by (simp add: db_ok_list_documents [OF ok'] 1) (simp add: save_document_def select_columns_def)
  have 5: "list_documents other_id (save_document user_id content filename mime now st)
                = list_documents other_id st" if "other_id \<noteq> user_id"
    using that
    by (simp add: db_ok_list_documents [OF ok'] db_ok_list_documents [OF ok])
       (simp add: save_document_def)
  from 1 2 3 4 5 show ?thesis by blast
qed

theorem list_documents_owner_scoped_witness:
  "list_documents 1 demo_db
     = [(3, Some ''b.txt'', Some ''text/plain'', ''second note'', ''2024-01-04''),
        (1, Some ''a.txt'', Some ''text/plain'', ''first note'', ''2024-01-02'')]
   \<and> 2 \<notin> set (map fst (list_documents 1 demo_db))
   \<and> list_documents 1 (save_document 1 ''third note'' None None ''2024-01-05'' demo_db)
       = (4, None, None, ''third note'', ''2024-01-05'') # list_documents 1 demo_db
   \<and> list_documents 2 (save_document 1 ''third note'' None None ''2024-01-05'' demo_db)
       = list_documents 2 demo_db"
proof -
  let ?d = "\<lparr>d_id = 2, d_user_id = 2, d_filename = None, d_mime = None,
             d_content = ''foreign note'', d_created_at = ''2024-01-03''\<rparr>"
  have docs: "map select_columns (rev (filter (\<lambda>d. d_user_id d = 1) (documents demo_db)))
     = [(3, Some ''b.txt'', Some ''text/plain'', ''second note'', ''2024-01-04''),
        (1, Some ''a.txt'', Some ''text/plain'', ''first note'', ''2024-01-02'')]"
    by code_simp
  have mem: "?d \<in> set (documents demo_db)" by code_simp
  have own: "d_user_id ?d \<noteq> 1" by simp
  have seq: "documents_seq demo_db = 3" by code_simp
  have neq: "(2::int) \<noteq> 1" by simp
  from list_documents_owner_scoped
         [of 1 demo_bcrypt demo_calls "''third note''" None None "''2024-01-05''" 2]
       mem own neq
  show ?thesis
    unfolding demo_db_def [symmetric] by (simp add: docs seq)
qed

text \<open>
  C9. In every reachable database \<open>delete_document\<close> changes nothing when no document
  has the id, and nothing when the document with the id belongs to another owner. When
  the document with the id belongs to the caller, exactly that document is removed: the
  caller's list is the old one without it, every other owner's list is the same, and in
  all cases the users and both sequence counters are untouched.
\<close>

theorem delete_document_owner_scoped:
  fixes B :: bcrypt and cs :: "call list" and doc_id user_id :: int
  defines "st \<equiv> run B cs init_db"
  defines "st' \<equiv> delete_document doc_id user_id st"
  shows "(doc_id \<notin> set (map d_id (documents st)) \<longrightarrow> st' = st)
       \<and> (\<forall>d. d \<in> set (documents st) \<and> d_id d = doc_id \<and> d_user_id d \<noteq> user_id
            \<longrightarrow> st' = st)
       \<and> (\<forall>d. d \<in> set (documents st) \<and> d_id d = doc_id \<and> d_user_id d = user_id
            \<longrightarrow> documents st' = filter (\<lambda>x. x \<noteq> d) (documents st)
              \<and> list_documents user_id st'
                  = filter (\<lambda>x. fst x \<noteq> doc_id) (list_documents user_id st)
              \<and> doc_id \<notin> set (map fst (list_documents user_id st'))
              \<and> (\<forall>other_id. other_id \<noteq> user_id
                    \<longrightarrow> list_documents other_id st' = list_documents other_id st))
       \<and> users st' = users st \<and> users_seq st' = users_seq st
       \<and> documents_seq st' = documents_seq st"
proof -
  have ok: "db_ok st" unfolding st_def by (rule db_ok_run)
  then have ok': "db_ok st'" unfolding st'_def by (rule db_ok_delete_document)
  have inj: "inj_on d_id (set (documents st))"
    using db_ok_distinct_ids [OF ok] by (simp add: distinct_map)
  have absent: "st' = st" if "doc_id \<notin> set (map d_id (documents st))"
    unfolding st'_def using that by (intro delete_document_no_match) auto
  have foreign: "st' = st"
    if "d \<in> set (documents st)" "d_id d = doc_id" "d_user_id d \<noteq> user_id" for d
    unfolding st'_def
  proof (rule delete_document_no_match, intro ballI notI)
    fix x assume x: "x \<in> set (documents st)" "d_id x = doc_id \<and> d_user_id x = user_id"
    then have "x = d" using inj that(1,2) by (auto dest: inj_onD)
    then show False using x that(3) by simp
  qed
  have own: "documents st' = filter (\<lambda>x. x \<noteq> d) (documents st)
              \<and> list_documents user_id st'
                  = filter (\<lambda>x. fst x \<noteq> doc_id) (list_documents user_id st)
              \<and> doc_id \<notin> set (map fst (list_documents user_id st'))
              \<and> (\<forall>other_id. other_id \<noteq> user_id
                    \<longrightarrow> list_documents other_id st' = list_documents other_id st)"
    if d: "d \<in> set (documents st)" "d_id d = doc_id" "d_user_id d = user_id" for d
  proof -
    have same: "x = d" if "x \<in> set (documents st)" "d_id x = doc_id" for x
      using inj that d(1,2) by (auto dest: inj_onD)
    have docs: "documents st' = filter (\<lambda>x. x \<noteq> d) (documents st)"
    proof -
      have "filter (\<lambda>x. \<not> (d_id x = doc_id \<and> d_user_id x = user_id)) (documents st)
          = filter (\<lambda>x. x \<noteq> d) (documents st)"
      proof (rule filter_cong [OF refl])
        fix x assume "x \<in> set (documents st)"
        then show "(\<not> (d_id x = doc_id \<and> d_user_id x = user_id)) = (x \<noteq> d)"
          using same d by blast
      qed
      then show ?thesis by (simp add: st'_def delete_document_def)
    qed
    have docs2: "documents st' = filter (\<lambda>x. d_id x \<noteq> doc_id) (documents st)"
    proof -
      have "filter (\<lambda>x. x \<noteq> d) (documents st)
          = filter (\<lambda>x. d_id x \<noteq> doc_id) (documents st)"
      proof (rule filter_cong [OF refl])
        fix x assume "x \<in> set (documents st)"
        then show "(x \<noteq> d) = (d_id x \<noteq> doc_id)"
          using same d by blast
      qed
      then show ?thesis by (simp only: docs)
    qed
    have lst: "list_documents u st' = filter (\<lambda>x. fst x \<noteq> doc_id) (list_documents u st)" for u
    proof -
      have "list_documents u st'
          = map select_columns (rev (filter (\<lambda>x. d_user_id x = u)
              (filter (\<lambda>x. d_id x \<noteq> doc_id) (documents st))))"
        by (simp only: db_ok_list_documents [OF ok'] docs2)
      also have "\<dots> = map select_columns (rev (filter (\<lambda>x. d_id x \<noteq> doc_id)
              (filter (\<lambda>x. d_user_id x = u) (documents st))))"
        by (simp only: filter_swap)
      also have "\<dots> = filter (\<lambda>x. fst x \<noteq> doc_id)
              (map select_columns (rev (filter (\<lambda>x. d_user_id x = u) (documents st))))"
        by (simp add: filter_map rev_filter comp_def fst_select_columns)
      finally show ?thesis by (simp only: db_ok_list_documents [OF ok])
    qed
    have gone: "doc_id \<notin> set (map fst (list_documents user_id st'))"
      by (auto simp: lst)
    have others: "list_documents other_id st' = list_documents other_id st"
      if "other_id \<noteq> user_id" for other_id
    proof -
      have "filter (\<lambda>x. d_id x \<noteq> doc_id) (filter (\<lambda>x. d_user_id x = other_id) (documents st))
          = filter (\<lambda>x. d_user_id x = other_id) (documents st)"
        unfolding filter_id_conv using same d(3) that by auto
      then have "filter (\<lambda>x. d_user_id x = other_id) (filter (\<lambda>x. d_id x \<noteq> doc_id) (documents st))
          = filter (\<lambda>x. d_user_id x = other_id) (documents st)"
        by (simp only: filter_swap)
      then show ?thesis
        by (simp only: db_ok_list_documents [OF ok] db_ok_list_documents [OF ok'] docs2)
    qed
    from docs lst gone others show ?thesis by blast
  qed
  have frame: "users st' = users st \<and> users_seq st' = users_seq st
       \<and> documents_seq st' = documents_seq st"
    by (simp add: st'_def delete_document_def)
  from absent foreign own frame show ?thesis by blast
qed

theorem delete_document_owner_scoped_witness:
  "delete_document 9 1 demo_db = demo_db
   \<and> delete_document 2 1 demo_db = demo_db
   \<and> documents (delete_document 3 1 demo_db)
       = [\<lparr>d_id = 1, d_user_id = 1, d_filename = Some ''a.txt'',
           d_mime = Some ''text/plain'', d_content = ''first note'',
           d_created_at = ''2024-01-02''\<rparr>,
          \<lparr>d_id = 2, d_user_id = 2, d_filename = None, d_mime = None,
           d_content = ''foreign note'', d_created_at = ''2024-01-03''\<rparr>]
   \<and> list_documents 1 (delete_document 3 1 demo_db)
       = [(1, Some ''a.txt'', Some ''text/plain'', ''first note'', ''2024-01-02'')]
   \<and> list_documents 2 (delete_document 3 1 demo_db) = list_documents 2 demo_db
   \<and> users (delete_document 3 1 demo_db) = users demo_db"
proof -
  let ?d2 = "\<lparr>d_id = 2, d_user_id = 2, d_filename = None, d_mime = None,
             d_content = ''foreign note'', d_created_at = ''2024-01-03''\<rparr>"
  let ?d3 = "\<lparr>d_id = 3, d_user_id = 1, d_filename = Some ''b.txt'',
          d_mime = Some ''text/plain'', d_content = ''second note'',
          d_created_at = ''2024-01-04''\<rparr>"
  have a: "9 \<notin> set (map d_id (documents demo_db))" by code_simp
  have b: "?d2 \<in> set (documents demo_db)" "d_id ?d2 = 2" "d_user_id ?d2 \<noteq> 1"
    by code_simp simp_all
  have c: "?d3 \<in> set (documents demo_db)" "d_id ?d3 = 3" "d_user_id ?d3 = 1"
    by code_simp simp_all
  have n: "(2::int) \<noteq> 1" by simp
  have f: "filter (\<lambda>x. x \<noteq> ?d3) (documents demo_db)
      = [\<lparr>d_id = 1, d_user_id = 1, d_filename = Some ''a.txt'',
           d_mime = Some ''text/plain'', d_content = ''first note'',
           d_created_at = ''2024-01-02''\<rparr>, ?d2]"
    by code_simp
  have g: "filter (\<lambda>x. fst x \<noteq> 3) (list_documents 1 demo_db)
      = [(1, Some ''a.txt'', Some ''text/plain'', ''first note'', ''2024-01-02'')]"
    by code_simp
  from delete_document_owner_scoped [of 9 demo_bcrypt demo_calls 1] a
  have 1: "delete_document 9 1 demo_db = demo_db"
    unfolding demo_db_def [symmetric] by blast
  from delete_document_owner_scoped [of 2 demo_bcrypt demo_calls 1] b
  have 2: "delete_document 2 1 demo_db = demo_db"
    unfolding demo_db_def [symmetric] by blast
  from delete_document_owner_scoped [of 3 demo_bcrypt demo_calls 1] c n
  have 3: "documents (delete_document 3 1 demo_db) = filter (\<lambda>x. x \<noteq> ?d3) (documents demo_db)
     \<and> list_documents 1 (delete_document 3 1 demo_db)
         = filter (\<lambda>x. fst x \<noteq> 3) (list_documents 1 demo_db)
     \<and> list_documents 2 (delete_document 3 1 demo_db) = list_documents 2 demo_db
     \<and> users (delete_document 3 1 demo_db) = users demo_db"
    unfolding demo_db_def [symmetric] by blast
  from 1 2 3 show ?thesis by (simp add: f g)
qed

section \<open>Saving documents\<close>

lemma db_ok_fresh_document_id:
  assumes "db_ok st"
  shows "documents_seq st + 1 \<notin> set (map d_id (documents st))"
proof
  assume "documents_seq st + 1 \<in> set (map d_id (documents st))"
  then obtain d where "d \<in> set (documents st)" "d_id d = documents_seq st + 1" by auto
  moreover have "\<forall>d\<in>set (documents st). d_id d \<le> documents_seq st"
    using assms by (simp add: db_ok_def list_all_iff)
  ultimately show False by fastforce
qed

text \<open>
  C4, as the code has it. \<open>save_document\<close> checks nothing and returns nothing: in every
  reachable database and for every owner, content (the empty string too), filename and
  mime it appends one row holding the content and the creation timestamp under a fresh
  id, one more than the sequence counter, and touches nothing else. Empty content is
  turned away one level up, by the handler of the save button: when the pasted and the
  extracted text are both empty after \<open>strip()\<close> it reports the error and saves
  nothing; otherwise it hands the stripped text to \<open>save_document\<close>.
\<close>

theorem save_document_persists_any_content:
  fixes B :: bcrypt and cs :: "call list" and user_id :: int and content now :: string
    and filename mime :: "string option"
  defines "st \<equiv> run B cs init_db"
  defines "st' \<equiv> save_document user_id content filename mime now st"
  shows "documents st' = documents st @
           [\<lparr>d_id = documents_seq st + 1, d_user_id = user_id, d_filename = filename,
             d_mime = mime, d_content = content, d_created_at = now\<rparr>]
       \<and> documents_seq st + 1 \<notin> set (map d_id (documents st))
       \<and> documents_seq st' = documents_seq st + 1
       \<and> users st' = users st \<and> users_seq st' = users_seq st
       \<and> (strip paste_text = [] \<and> strip extracted_text = []
            \<longrightarrow> save_button user_id paste_text extracted_text filename mime now st
                = (EmptyContent, st))
       \<and> (strip paste_text \<noteq> []
            \<longrightarrow> save_button user_id paste_text extracted_text filename mime now st
                = ((True, ''Document saved to your library.''),
                   save_document user_id (strip paste_text)
                     (Some (or_default filename ''pasted_text.txt''))
                     (Some (or_default mime ''text/plain'')) now st))
       \<and> (strip paste_text = [] \<and> strip extracted_text \<noteq> []
            \<longrightarrow> save_button user_id paste_text extracted_text filename mime now st
                = ((True, ''Document saved to your library.''),
                   save_document user_id (strip extracted_text)
                     (Some (or_default filename ''pasted_text.txt''))
                     (Some (or_default mime ''text/plain'')) now st))"
proof -
  have ok: "db_ok st" unfolding st_def by (rule db_ok_run)
  have row: "documents st' = documents st @
           [\<lparr>d_id = documents_seq st + 1, d_user_id = user_id, d_filename = filename,
             d_mime = mime, d_content = content, d_created_at = now\<rparr>]"
    by (simp add: st'_def save_document_def)
  have fresh: "documents_seq st + 1 \<notin> set (map d_id (documents st))"
    using ok by (rule db_ok_fresh_document_id)
  have frame: "documents_seq st' = documents_seq st + 1
       \<and> users st' = users st \<and> users_seq st' = users_seq st"
    by (simp add: st'_def save_document_def)
  have empty: "save_button user_id paste_text extracted_text filename mime now st
                = (EmptyContent, st)"
    if "strip paste_text = [] \<and> strip extracted_text = []"
    using that by (simp add: save_button_def EmptyContent_def Let_def)
  have pasted: "save_button user_id paste_text extracted_text filename mime now st
                = ((True, ''Document saved to your library.''),
                   save_document user_id (strip paste_text)
                     (Some (or_default filename ''pasted_text.txt''))
                     (Some (or_default mime ''text/plain'')) now st)"
    if "strip paste_text \<noteq> []"
    using that by (simp add: save_button_def Let_def)
  have uploaded: "save_button user_id paste_text extracted_text filename mime now st
                = ((True, ''Document saved to your library.''),
                   save_document user_id (strip extracted_text)
                     (Some (or_default filename ''pasted_text.txt''))
                     (Some (or_default mime ''text/plain'')) now st)"
    if "strip paste_text = [] \<and> strip extracted_text \<noteq> []"
  proof -
    from that have "extracted_text \<noteq> []" using strip_Nil by auto
    with that show ?thesis by (simp add: save_button_def Let_def)
  qed
  from row fresh frame empty pasted uploaded show ?thesis by blast
qed

theorem save_document_persists_any_content_witness:
  "documents (save_document 1 [] None None ''2024-01-05'' demo_db)
     = documents demo_db @
         [\<lparr>d_id = 4, d_user_id = 1, d_filename = None, d_mime = None, d_content = [],
           d_created_at = ''2024-01-05''\<rparr>]
   \<and> save_button 1 ''  '' [] None None ''2024-01-05'' demo_db = (EmptyContent, demo_db)
   \<and> save_button 1 '' hello  '' [] None None ''2024-01-05'' demo_db
       = ((True, ''Document saved to your library.''),
          save_document 1 ''hello'' (Some ''pasted_text.txt'') (Some ''text/plain'')
            ''2024-01-05'' demo_db)
   \<and> save_button 1 '' '' ''from file '' (Some ''f.txt'') (Some ''text/x'') ''2024-01-05'' demo_db
       = ((True, ''Document saved to your library.''),
          save_document 1 ''from file'' (Some ''f.txt'') (Some ''text/x'')
            ''2024-01-05'' demo_db)"
proof -
  have seq: "documents_seq demo_db = 3" by code_simp
  have s1: "strip ''  '' = []" and s2: "strip [] = []"
    and s3: "strip '' hello  '' = ''hello''" and s4: "strip '' '' = []"
    and s5: "strip ''from file '' = ''from file''"
    by code_simp+
  have d1: "or_default None ''pasted_text.txt'' = ''pasted_text.txt''"
    and d2: "or_default None ''text/plain'' = ''text/plain''"
    and d3: "or_default (Some ''f.txt'') ''pasted_text.txt'' = ''f.txt''"
    and d4: "or_default (Some ''text/x'') ''text/plain'' = ''text/x''"
    by (simp_all add: or_default_def)
  from save_document_persists_any_content
         [where B = demo_bcrypt and cs = demo_calls and user_id = 1 and content = "[]"
            and filename = None and mime = None and now = "''2024-01-05''"]
  have 1: "documents (save_document 1 [] None None ''2024-01-05'' demo_db)
     = documents demo_db @
         [\<lparr>d_id = 4, d_user_id = 1, d_filename = None, d_mime = None, d_content = [],
           d_created_at = ''2024-01-05''\<rparr>]"
    unfolding demo_db_def [symmetric] by (simp add: seq)
  from save_document_persists_any_content
         [where B = demo_bcrypt and cs = demo_calls and user_id = 1 and paste_text = "''  ''"
            and extracted_text = "[]" and filename = None and mime = None
            and now = "''2024-01-05''"]
  have 2: "save_button 1 ''  '' [] None None ''2024-01-05'' demo_db = (EmptyContent, demo_db)"
    unfolding demo_db_def [symmetric] by (simp add: s1 s2)
  from save_document_persists_any_content
         [where B = demo_bcrypt and cs = demo_calls and user_id = 1
            and paste_text = "'' hello  ''" and extracted_text = "[]" and filename = None
            and mime = None and now = "''2024-01-05''"]
  have 3: "save_button 1 '' hello  '' [] None None ''2024-01-05'' demo_db
       = ((True, ''Document saved to your library.''),
          save_document 1 ''hello'' (Some ''pasted_text.txt'') (Some ''text/plain'')
            ''2024-01-05'' demo_db)"
    unfolding demo_db_def [symmetric] by (simp add: s3 d1 d2)
  from save_document_persists_any_content
         [where B = demo_bcrypt and cs = demo_calls and user_id = 1 and paste_text = "'' ''"
            and extracted_text = "''from file ''" and filename = "Some ''f.txt''"
            and mime = "Some ''text/x''" and now = "''2024-01-05''"]
  have 4: "save_button 1 '' '' ''from file '' (Some ''f.txt'') (Some ''text/x'') ''2024-01-05'' demo_db
       = ((True, ''Document saved to your library.''),
          save_document 1 ''from file'' (Some ''f.txt'') (Some ''text/x'')
            ''2024-01-05'' demo_db)"
    unfolding demo_db_def [symmetric] by (simp add: s4 s5 d3 d4)
  from 1 2 3 4 show ?thesis by blast
qed

text \<open>
  C4 as stated fails at the empty content: \<open>save_document\<close> on the fresh database
  stores a document whose content is the empty string.
\<close>

theorem save_document_empty_content_counterexample:
  "documents (save_document 1 [] None None ''2024-01-05'' init_db)
     = [\<lparr>d_id = 1, d_user_id = 1, d_filename = None, d_mime = None, d_content = [],
         d_created_at = ''2024-01-05''\<rparr>]"
  by (simp add: save_document_def init_db_def)

section \<open>Registering a blank email\<close>

text \<open>
  C5 at the input of three spaces. \<open>add_user\<close> tests the email string as typed, and
  normalizes it only for the \<open>INSERT\<close>: an email of three spaces passes the test,
  the registration succeeds, and the user is stored under the empty email. On the fresh
  database no call has run before, so the write lock is free.
\<close>

theorem add_user_whitespace_email:
  "add_user B False salt now ''   '' ''pw'' init_db
     = ((True, ''Registration successful.''),
        \<lparr>users = [\<lparr>u_id = 1, u_email = [], u_password_hash = hashpw B ''pw'' salt,
                    u_reset_token = None, u_created_at = now\<rparr>],
         documents = [], users_seq = 1, documents_seq = 0\<rparr>)"
proof -
  have "normalize_email ''   '' = []" by code_simp
  then show ?thesis by (simp add: add_user_def init_db_def)
qed

end
